theory Spec2Isabelle
  imports Complex_Main "HOL-Library.AList"
begin

section \<open>Numbers, errors and messages\<close>

text \<open>
  The program computes money amounts with Python's \<^verbatim>\<open>Decimal\<close> and percentages with
  \<^verbatim>\<open>float\<close>. Both are modelled as exact rationals: the formulas of the program are kept
  as they are written, rounding is outside the model, and the conversions
  \<^verbatim>\<open>Decimal(str(x))\<close> and \<^verbatim>\<open>float(x)\<close> are the identity. Division is the one
  arithmetic operation that can raise, and it is modelled with its exception.
\<close>

datatype error =
    DivisionByZero        \<comment> \<open>decimal: x / 0 with x nonzero\<close>
  | InvalidOperation      \<comment> \<open>decimal: 0 / 0\<close>
  | ZeroDivisionError     \<comment> \<open>float division by zero\<close>
  | ValidationError       \<comment> \<open>a Signal whose strength is outside [0, 1]\<close>
  | Fault string          \<comment> \<open>any other exception raised by a strategy\<close>

definition decimal_div :: "rat \<Rightarrow> rat \<Rightarrow> error + rat" where
  "decimal_div a b =
     (if b = 0 then (if a = 0 then Inl InvalidOperation else Inl DivisionByZero)
      else Inr (a / b))"

definition float_div :: "rat \<Rightarrow> rat \<Rightarrow> error + rat" where
  "float_div a b = (if b = 0 then Inl ZeroDivisionError else Inr (a / b))"

text \<open>
  Reasons are strings in the program, most of them formatted from numbers. A formatted
  message is represented by a constructor that carries the values it is formatted from;
  \<open>Text\<close> is a literal string (the default reason is the empty one).
\<close>

datatype reason =
    Text string
  | Not_a_BUY_signal
  | Max_positions_reached int
  | Insufficient_balance rat rat
  | Daily_loss_limit_hit rat
  | Max_drawdown_hit rat
  | Already_have_open_position string
  | Not_a_SELL_signal
  | No_position_in string
  | Position_is_not_open string
  | Position_not_open
  | Stop_loss_triggered rat rat
  | Take_profit_triggered rat rat
  | New_high_no_trailing_stop
  | Trailing_stop_dropped rat rat
  | Recovery rat rat
  | Dip rat rat

section \<open>Domain model\<close>

text \<open>
  Modelled from the spec: the module \<^verbatim>\<open>coin_trader/domain/models.py\<close> (the value types
  Signal, Trade, Position and Portfolio) is not among the sources. The records below
  follow section 3 of the specification and the way \<^verbatim>\<open>portfolio.py\<close>, \<^verbatim>\<open>risk.py\<close>,
  \<^verbatim>\<open>engine.py\<close> and the tests construct and read these types. The generated fields
  (\<^verbatim>\<open>id\<close>, \<^verbatim>\<open>entry_time\<close>, \<^verbatim>\<open>timestamp\<close>) are filled by defaults of the absent
  module and are left out. Field names are those of the code (the specification writes
  \<^verbatim>\<open>quote_balance\<close> for \<^verbatim>\<open>krw_balance\<close>); a prefix is added where two types share a
  field name. The positions dictionary is an association list in insertion order, read
  with \<^const>\<open>map_of\<close> and written with \<^const>\<open>AList.update\<close>.
\<close>

datatype SignalType = SignalType_BUY | SignalType_SELL

datatype Side = Side_BUY | Side_SELL

datatype PositionStatus = OPEN | CLOSED

record Signal =
  s_strategy_name :: string
  s_ticker :: string
  signal_type :: SignalType
  strength :: rat
  s_reason :: reason
  params :: "(string \<times> rat) list"

record Trade =
  strategy_name :: string
  ticker :: string
  side :: Side
  price :: rat
  quantity :: rat
  total_krw :: rat
  fee :: rat
  reason :: reason
  profit :: "rat option"
  profit_pct :: "rat option"

record Position =
  p_strategy_name :: string
  p_ticker :: string
  status :: PositionStatus
  entry_price :: rat
  p_quantity :: rat
  highest_price :: "rat option"
  exit_price :: "rat option"
  exit_time :: "nat option"
  p_profit :: "rat option"
  p_profit_pct :: "rat option"

record Portfolio =
  krw_balance :: rat
  positions :: "(string \<times> Position) list"
  total_trades :: int
  winning_trades :: int
  total_profit :: rat

text \<open>
  Modelled from the spec: the constructor of Signal validates the strength
  (\<^verbatim>\<open>strength \<in> [0,1] (validated, rejected otherwise)\<close>); the tests expect a ValueError.
\<close>

definition Signal_init ::
  "string \<Rightarrow> string \<Rightarrow> SignalType \<Rightarrow> rat \<Rightarrow> reason \<Rightarrow> (string \<times> rat) list \<Rightarrow> error + Signal" where
  "Signal_init sn t ty st r ps =
     (if 0 \<le> st \<and> st \<le> 1
      then Inr \<lparr>s_strategy_name = sn, s_ticker = t, signal_type = ty, strength = st,
                s_reason = r, params = ps\<rparr>
      else Inl ValidationError)"

text \<open>
  Modelled from the spec: a new Position is OPEN and has no exit fields
  (\<^verbatim>\<open>Position(strategy_name, ticker, entry_price, quantity, highest_price)\<close>).
\<close>

definition Position_init :: "string \<Rightarrow> string \<Rightarrow> rat \<Rightarrow> rat \<Rightarrow> rat option \<Rightarrow> Position" where
  "Position_init sn t ep q hp =
     \<lparr>p_strategy_name = sn, p_ticker = t, status = OPEN, entry_price = ep, p_quantity = q,
      highest_price = hp, exit_price = None, exit_time = None, p_profit = None,
      p_profit_pct = None\<rparr>"

section \<open>Portfolio manager (domain/portfolio.py)\<close>

record PortfolioManager =
  portfolio :: Portfolio
  fee_rate :: rat

definition PortfolioManager_init :: "Portfolio \<Rightarrow> rat \<Rightarrow> PortfolioManager" where
  "PortfolioManager_init pf fee_rate_pct = \<lparr>portfolio = pf, fee_rate = fee_rate_pct / 100\<rparr>"

text \<open>
  \<^verbatim>\<open>execute_buy\<close>: the result is the raised exception, or the returned value (a Trade or
  None) with the manager after the call. The only statement that can raise, the division
  by the price, comes before every mutation.
\<close>

definition execute_buy ::
  "PortfolioManager \<Rightarrow> string \<Rightarrow> string \<Rightarrow> rat \<Rightarrow> rat \<Rightarrow> reason
     \<Rightarrow> error + (Trade option \<times> PortfolioManager)" where
  "execute_buy pm sn t pr krw_amount rsn =
     (if krw_balance (portfolio pm) < krw_amount then Inr (None, pm)
      else
        let fee' = krw_amount * fee_rate pm;
            net_amount = krw_amount - fee'
        in case decimal_div net_amount pr of
             Inl e \<Rightarrow> Inl e
           | Inr qty \<Rightarrow>
               let pf = portfolio pm;
                   position = Position_init sn t pr qty (Some pr);
                   pf' = pf\<lparr>krw_balance := krw_balance pf - krw_amount,
                            positions := AList.update t position (positions pf)\<rparr>;
                   trade = \<lparr>strategy_name = sn, ticker = t, side = Side_BUY, price = pr,
                            quantity = qty, total_krw = krw_amount, fee = fee', reason = rsn,
                            profit = None, profit_pct = None\<rparr>
               in Inr (Some trade, pm\<lparr>portfolio := pf'\<rparr>))"

text \<open>
  \<^verbatim>\<open>execute_sell\<close>: \<open>now\<close> is the reading of \<^verbatim>\<open>datetime.utcnow()\<close>. The division by
  \<open>1 - fee_rate\<close> comes before every mutation. The position object is mutated in place,
  so the dictionary keeps it under the same key.
\<close>

definition execute_sell ::
  "PortfolioManager \<Rightarrow> nat \<Rightarrow> string \<Rightarrow> string \<Rightarrow> rat \<Rightarrow> reason
     \<Rightarrow> error + (Trade option \<times> PortfolioManager)" where
  "execute_sell pm now sn t pr rsn =
     (case map_of (positions (portfolio pm)) t of
        None \<Rightarrow> Inr (None, pm)
      | Some position \<Rightarrow>
          if status position \<noteq> OPEN then Inr (None, pm)
          else
            let gross_krw = p_quantity position * pr;
                fee' = gross_krw * fee_rate pm;
                net_krw = gross_krw - fee';
                raw_cost = p_quantity position * entry_price position;
                fee_dec = fee_rate pm
            in case decimal_div (raw_cost * fee_dec) (1 - fee_dec) of
                 Inl e \<Rightarrow> Inl e
               | Inr buy_fee \<Rightarrow>
                   let cost = raw_cost + buy_fee;
                       prof = net_krw - cost;
                       prof_pct = (if cost > 0 then prof / cost * 100 else 0);
                       pf = portfolio pm;
                       position' = position\<lparr>status := CLOSED, exit_price := Some pr,
                                     exit_time := Some now, p_profit := Some prof,
                                     p_profit_pct := Some prof_pct\<rparr>;
                       pf' = pf\<lparr>krw_balance := krw_balance pf + net_krw,
                                positions := AList.update t position' (positions pf),
                                total_trades := total_trades pf + 1,
                                winning_trades :=
                                  (if prof > 0 then winning_trades pf + 1 else winning_trades pf),
                                total_profit := total_profit pf + prof\<rparr>;
                       trade = \<lparr>strategy_name = sn, ticker = t, side = Side_SELL, price = pr,
                                quantity = p_quantity position, total_krw = net_krw, fee = fee',
                                reason = rsn, profit = Some prof, profit_pct = Some prof_pct\<rparr>
                   in Inr (Some trade, pm\<lparr>portfolio := pf'\<rparr>))"

definition update_highest_price :: "PortfolioManager \<Rightarrow> string \<Rightarrow> rat \<Rightarrow> PortfolioManager" where
  "update_highest_price pm t pr =
     (case map_of (positions (portfolio pm)) t of
        None \<Rightarrow> pm
      | Some pos \<Rightarrow>
          if status pos = OPEN \<and>
             (case highest_price pos of None \<Rightarrow> True | Some h \<Rightarrow> pr > h)
          then pm\<lparr>portfolio := (portfolio pm)
                    \<lparr>positions := AList.update t (pos\<lparr>highest_price := Some pr\<rparr>)
                                   (positions (portfolio pm))\<rparr>\<rparr>
          else pm)"

definition get_open_positions :: "PortfolioManager \<Rightarrow> (string \<times> Position) list" where
  "get_open_positions pm = filter (\<lambda>(t, p). status p = OPEN) (positions (portfolio pm))"

section \<open>Risk manager (domain/risk.py)\<close>

record RiskConfig =
  stop_loss_pct :: rat
  take_profit_pct :: rat
  trailing_stop_pct :: rat
  max_daily_loss_pct :: rat
  max_drawdown_pct :: rat
  max_positions :: int

record RiskCheck =
  allowed :: bool
  rc_reason :: reason

record DailyPnL =
  date :: nat
  realized_pnl :: rat
  trades_today :: int

record RiskManager =
  config :: RiskConfig
  daily_pnl :: DailyPnL

text \<open>
  The clock is an input: \<open>now\<close> is the reading of \<^verbatim>\<open>datetime.utcnow()\<close> in seconds, and
  its date is the number of whole days.
\<close>

definition utc_date :: "nat \<Rightarrow> nat" where
  "utc_date now = now div 86400"

definition reset_daily_if_needed :: "RiskManager \<Rightarrow> nat \<Rightarrow> RiskManager" where
  "reset_daily_if_needed rm now =
     (let today = utc_date now
      in if date (daily_pnl rm) \<noteq> today
         then rm\<lparr>daily_pnl := \<lparr>date = today, realized_pnl = 0, trades_today = 0\<rparr>\<rparr>
         else rm)"

definition open_count :: "Portfolio \<Rightarrow> int" where
  "open_count pf = int (length (filter (\<lambda>(t, p). status p = OPEN) (positions pf)))"

text \<open>
  \<^verbatim>\<open>check_buy\<close> resets the daily aggregate first, so it returns the manager too. The
  base of both percentages is the literal \<^verbatim>\<open>Decimal("1000000")\<close> of the source.
\<close>

definition check_buy ::
  "RiskManager \<Rightarrow> nat \<Rightarrow> Signal \<Rightarrow> Portfolio \<Rightarrow> rat \<Rightarrow> RiskCheck \<times> RiskManager" where
  "check_buy rm0 now signal pf buy_amount =
     (let rm = reset_daily_if_needed rm0 now;
          initial = (1000000 :: rat);
          daily_loss_pct = (if initial \<noteq> 0 then realized_pnl (daily_pnl rm) / initial * 100 else 0);
          return_pct = total_profit pf / initial * 100
      in
      (if signal_type signal \<noteq> SignalType_BUY
         then \<lparr>allowed = False, rc_reason = Not_a_BUY_signal\<rparr>
       else if open_count pf \<ge> max_positions (config rm)
         then \<lparr>allowed = False, rc_reason = Max_positions_reached (max_positions (config rm))\<rparr>
       else if krw_balance pf < buy_amount
         then \<lparr>allowed = False, rc_reason = Insufficient_balance (krw_balance pf) buy_amount\<rparr>
       else if daily_loss_pct \<le> max_daily_loss_pct (config rm)
         then \<lparr>allowed = False, rc_reason = Daily_loss_limit_hit daily_loss_pct\<rparr>
       else if total_trades pf > 0 \<and> return_pct \<le> max_drawdown_pct (config rm)
         then \<lparr>allowed = False, rc_reason = Max_drawdown_hit return_pct\<rparr>
       else if (case map_of (positions pf) (s_ticker signal) of
                  None \<Rightarrow> False | Some pos \<Rightarrow> status pos = OPEN)
         then \<lparr>allowed = False, rc_reason = Already_have_open_position (s_ticker signal)\<rparr>
       else \<lparr>allowed = True, rc_reason = Text ''''\<rparr>,
       rm))"

definition check_sell :: "Signal \<Rightarrow> Portfolio \<Rightarrow> RiskCheck" where
  "check_sell signal pf =
     (if signal_type signal \<noteq> SignalType_SELL
        then \<lparr>allowed = False, rc_reason = Not_a_SELL_signal\<rparr>
      else case map_of (positions pf) (s_ticker signal) of
             None \<Rightarrow> \<lparr>allowed = False, rc_reason = No_position_in (s_ticker signal)\<rparr>
           | Some pos \<Rightarrow>
               if status pos \<noteq> OPEN
               then \<lparr>allowed = False, rc_reason = Position_is_not_open (s_ticker signal)\<rparr>
               else \<lparr>allowed = True, rc_reason = Text ''''\<rparr>)"

definition check_stop_loss :: "RiskConfig \<Rightarrow> Position \<Rightarrow> rat \<Rightarrow> error + RiskCheck" where
  "check_stop_loss cfg position current_price =
     (if status position \<noteq> OPEN then Inr \<lparr>allowed = False, rc_reason = Position_not_open\<rparr>
      else case decimal_div (current_price - entry_price position) (entry_price position) of
             Inl e \<Rightarrow> Inl e
           | Inr q \<Rightarrow>
               let change_pct = q * 100
               in if change_pct \<le> stop_loss_pct cfg
                  then Inr \<lparr>allowed = True,
                            rc_reason = Stop_loss_triggered change_pct (stop_loss_pct cfg)\<rparr>
                  else Inr \<lparr>allowed = False, rc_reason = Text ''''\<rparr>)"

definition check_take_profit :: "RiskConfig \<Rightarrow> Position \<Rightarrow> rat \<Rightarrow> error + RiskCheck" where
  "check_take_profit cfg position current_price =
     (if status position \<noteq> OPEN then Inr \<lparr>allowed = False, rc_reason = Position_not_open\<rparr>
      else case decimal_div (current_price - entry_price position) (entry_price position) of
             Inl e \<Rightarrow> Inl e
           | Inr q \<Rightarrow>
               let change_pct = q * 100
               in if change_pct \<ge> take_profit_pct cfg
                  then Inr \<lparr>allowed = True,
                            rc_reason = Take_profit_triggered change_pct (take_profit_pct cfg)\<rparr>
                  else Inr \<lparr>allowed = False, rc_reason = Text ''''\<rparr>)"

text \<open>
  \<^verbatim>\<open>highest = position.highest_price or position.entry_price\<close>: Python's \<^verbatim>\<open>or\<close> takes
  the entry price when the highest price is None or zero.
\<close>

definition highest_or_entry :: "Position \<Rightarrow> rat" where
  "highest_or_entry position =
     (case highest_price position of
        None \<Rightarrow> entry_price position
      | Some h \<Rightarrow> if h = 0 then entry_price position else h)"

definition check_trailing_stop :: "RiskConfig \<Rightarrow> Position \<Rightarrow> rat \<Rightarrow> error + RiskCheck" where
  "check_trailing_stop cfg position current_price =
     (if status position \<noteq> OPEN then Inr \<lparr>allowed = False, rc_reason = Position_not_open\<rparr>
      else
        let highest = highest_or_entry position
        in if current_price > highest
           then Inr \<lparr>allowed = False, rc_reason = New_high_no_trailing_stop\<rparr>
           else case decimal_div (highest - current_price) highest of
                  Inl e \<Rightarrow> Inl e
                | Inr q \<Rightarrow>
                    let drop_from_high = q * 100
                    in if drop_from_high \<ge> trailing_stop_pct cfg
                       then Inr \<lparr>allowed = True,
                                 rc_reason = Trailing_stop_dropped drop_from_high
                                               (trailing_stop_pct cfg)\<rparr>
                       else Inr \<lparr>allowed = False, rc_reason = Text ''''\<rparr>)"

definition record_trade_pnl :: "RiskManager \<Rightarrow> nat \<Rightarrow> rat \<Rightarrow> RiskManager" where
  "record_trade_pnl rm0 now pnl =
     (let rm = reset_daily_if_needed rm0 now
      in rm\<lparr>daily_pnl := (daily_pnl rm)
               \<lparr>realized_pnl := realized_pnl (daily_pnl rm) + pnl,
                trades_today := trades_today (daily_pnl rm) + 1\<rparr>\<rparr>)"

section \<open>Dip-buy strategy (strategies/dip_buy.py)\<close>

text \<open>
  The market view is the dictionary the engine builds; a key that is absent reads as its
  default (\<open>0\<close>, \<open>False\<close>, the empty list), which is what the record holds then.
\<close>

record MarketData =
  current_price :: rat
  volume :: rat
  change_pct :: rat
  high_price :: rat
  low_price :: rat
  has_position :: bool
  md_entry_price :: rat
  price_history :: "rat list"

type_synonym Strategy = "string \<Rightarrow> MarketData \<Rightarrow> error + Signal option"






section \<open>Execution engine (execution/engine.py)\<close>

text \<open>
  A tick is a dictionary; every key may be absent. Of the configuration the engine reads
  only \<^verbatim>\<open>config.trading.buy_amount\<close>. The strategies are not part of the state: they are
  passed to \<open>process_tick\<close>, in registration order.
\<close>

record Tick =
  tick_ticker :: "string option"
  tick_price :: "rat option"
  tick_volume :: "rat option"
  tick_change_pct :: "rat option"
  tick_high_price :: "rat option"
  tick_low_price :: "rat option"
  tick_price_history :: "rat list option"

record TradingConfig =
  initial_krw :: int
  buy_amount :: int

record ExecutionEngine =
  trading :: TradingConfig
  pm :: PortfolioManager
  risk :: RiskManager
  trade_log :: "Trade list"

definition get_or :: "'a option \<Rightarrow> 'a \<Rightarrow> 'a" where
  "get_or v d = (case v of None \<Rightarrow> d | Some x \<Rightarrow> x)"

definition build_market_data :: "ExecutionEngine \<Rightarrow> string \<Rightarrow> Tick \<Rightarrow> MarketData" where
  "build_market_data eng t tick =
     (let open_positions = get_open_positions (pm eng)
      in \<lparr>current_price = get_or (tick_price tick) 0,
          volume = get_or (tick_volume tick) 0,
          change_pct = get_or (tick_change_pct tick) 0,
          high_price = get_or (tick_high_price tick) 0,
          low_price = get_or (tick_low_price tick) 0,
          has_position = (map_of open_positions t \<noteq> None),
          md_entry_price = (case map_of open_positions t of
                              None \<Rightarrow> 0 | Some p \<Rightarrow> entry_price p),
          price_history = get_or (tick_price_history tick) []\<rparr>)"

text \<open>
  The engine's functions return the engine after the call together with the raised
  exception or the returned value: what was mutated before an exception stays mutated.
\<close>

definition sell_for_exit ::
  "ExecutionEngine \<Rightarrow> nat \<Rightarrow> Position \<Rightarrow> string \<Rightarrow> rat \<Rightarrow> reason
     \<Rightarrow> ExecutionEngine \<times> (error + Trade option)" where
  "sell_for_exit eng now position t current rsn =
     (case execute_sell (pm eng) now (p_strategy_name position) t current rsn of
        Inl e \<Rightarrow> (eng, Inl e)
      | Inr (trade, pm') \<Rightarrow> (eng\<lparr>pm := pm'\<rparr>, Inr trade))"

definition check_risk_exits ::
  "ExecutionEngine \<Rightarrow> nat \<Rightarrow> string \<Rightarrow> rat \<Rightarrow> ExecutionEngine \<times> (error + Trade option)" where
  "check_risk_exits eng now t current =
     (case map_of (get_open_positions (pm eng)) t of
        None \<Rightarrow> (eng, Inr None)
      | Some position \<Rightarrow>
          (case check_stop_loss (config (risk eng)) position current of
             Inl e \<Rightarrow> (eng, Inl e)
           | Inr sl_check \<Rightarrow>
               if allowed sl_check
               then sell_for_exit eng now position t current (rc_reason sl_check)
               else
                 (case check_take_profit (config (risk eng)) position current of
                    Inl e \<Rightarrow> (eng, Inl e)
                  | Inr tp_check \<Rightarrow>
                      if allowed tp_check
                      then sell_for_exit eng now position t current (rc_reason tp_check)
                      else
                        (case check_trailing_stop (config (risk eng)) position current of
                           Inl e \<Rightarrow> (eng, Inl e)
                         | Inr ts_check \<Rightarrow>
                             if allowed ts_check
                             then sell_for_exit eng now position t current (rc_reason ts_check)
                             else (eng, Inr None)))))"

text \<open>
  \<^verbatim>\<open>if trade and trade.profit\<close>: a profit that is None or zero is falsy.
\<close>

definition profit_truthy :: "Trade \<Rightarrow> bool" where
  "profit_truthy tr = (case profit tr of None \<Rightarrow> False | Some p \<Rightarrow> p \<noteq> 0)"

definition execute_signal ::
  "ExecutionEngine \<Rightarrow> nat \<Rightarrow> Signal \<Rightarrow> rat \<Rightarrow> ExecutionEngine \<times> (error + Trade option)" where
  "execute_signal eng now signal current =
     (case signal_type signal of
        SignalType_BUY \<Rightarrow>
          let amount = of_int (buy_amount (trading eng));
              (risk_check, rm) = check_buy (risk eng) now signal (portfolio (pm eng)) amount;
              eng1 = eng\<lparr>risk := rm\<rparr>
          in if \<not> allowed risk_check then (eng1, Inr None)
             else
               (case execute_buy (pm eng1) (s_strategy_name signal) (s_ticker signal) current
                       amount (s_reason signal) of
                  Inl e \<Rightarrow> (eng1, Inl e)
                | Inr (None, pm') \<Rightarrow> (eng1\<lparr>pm := pm'\<rparr>, Inr None)
                | Inr (Some trade, pm') \<Rightarrow>
                    (eng1\<lparr>pm := pm', trade_log := trade_log eng1 @ [trade],
                           risk := record_trade_pnl (risk eng1) now 0\<rparr>,
                     Inr (Some trade)))
      | SignalType_SELL \<Rightarrow>
          let risk_check = check_sell signal (portfolio (pm eng))
          in if \<not> allowed risk_check then (eng, Inr None)
             else
               (case execute_sell (pm eng) now (s_strategy_name signal) (s_ticker signal)
                       current (s_reason signal) of
                  Inl e \<Rightarrow> (eng, Inl e)
                | Inr (None, pm') \<Rightarrow> (eng\<lparr>pm := pm'\<rparr>, Inr None)
                | Inr (Some trade, pm') \<Rightarrow>
                    if profit_truthy trade
                    then (eng\<lparr>pm := pm', trade_log := trade_log eng @ [trade],
                               risk := record_trade_pnl (risk eng) now (the (profit trade))\<rparr>,
                          Inr (Some trade))
                    else (eng\<lparr>pm := pm'\<rparr>, Inr (Some trade))))"

text \<open>The loop over the strategies; \<open>trades\<close> is the list built so far.\<close>

fun evaluate_strategies ::
  "Strategy list \<Rightarrow> nat \<Rightarrow> string \<Rightarrow> Tick \<Rightarrow> rat \<Rightarrow> ExecutionEngine \<Rightarrow> Trade list
     \<Rightarrow> ExecutionEngine \<times> (error + Trade list)" where
  "evaluate_strategies [] now t tick current eng trades = (eng, Inr trades)"
| "evaluate_strategies (strategy # rest) now t tick current eng trades =
     (case strategy t (build_market_data eng t tick) of
        Inl e \<Rightarrow> (eng, Inl e)
      | Inr None \<Rightarrow> evaluate_strategies rest now t tick current eng trades
      | Inr (Some signal) \<Rightarrow>
          (case execute_signal eng now signal current of
             (eng', Inl e) \<Rightarrow> (eng', Inl e)
           | (eng', Inr None) \<Rightarrow> evaluate_strategies rest now t tick current eng' trades
           | (eng', Inr (Some trade)) \<Rightarrow>
               evaluate_strategies rest now t tick current eng' (trades @ [trade])))"

definition process_tick ::
  "Strategy list \<Rightarrow> nat \<Rightarrow> ExecutionEngine \<Rightarrow> Tick \<Rightarrow> ExecutionEngine \<times> (error + Trade list)" where
  "process_tick strategies now eng tick =
     (let t = get_or (tick_ticker tick) '''';
          pr = get_or (tick_price tick) 0
      in if t = '''' \<or> pr = 0 then (eng, Inr [])
         else
           let eng1 = eng\<lparr>pm := update_highest_price (pm eng) t pr\<rparr>
           in case check_risk_exits eng1 now t pr of
                (eng2, Inl e) \<Rightarrow> (eng2, Inl e)
              | (eng2, Inr (Some exit_trade)) \<Rightarrow> (eng2, Inr [exit_trade])
              | (eng2, Inr None) \<Rightarrow> evaluate_strategies strategies now t tick pr eng2 [])"

record Summary =
  sm_krw_balance :: rat
  sm_total_trades :: int
  sm_winning_trades :: int
  sm_total_profit :: rat
  sm_open_positions :: nat
  trade_log_count :: nat

text \<open>
  \<^verbatim>\<open>get_summary\<close>, without the entry \<^verbatim>\<open>win_rate\<close>, a property of the absent module.
\<close>

definition get_summary :: "ExecutionEngine \<Rightarrow> Summary" where
  "get_summary eng =
     \<lparr>sm_krw_balance = krw_balance (portfolio (pm eng)),
      sm_total_trades = total_trades (portfolio (pm eng)),
      sm_winning_trades = winning_trades (portfolio (pm eng)),
      sm_total_profit = total_profit (portfolio (pm eng)),
      sm_open_positions = length (get_open_positions (pm eng)),
      trade_log_count = length (trade_log eng)\<rparr>"

section \<open>Example states and definitions for the properties\<close>

text \<open>
  The states of the repository's tests: a balance of 1,000,000 and a fee rate of 0.05%,
  and the same account after buying KRW-BTC for 100,000 (or for the whole balance) at
  50,000,000.
\<close>

definition example_portfolio :: Portfolio where
  "example_portfolio =
     \<lparr>krw_balance = 1000000, positions = [], total_trades = 0, winning_trades = 0,
      total_profit = 0\<rparr>"

definition example_pm :: PortfolioManager where
  "example_pm = PortfolioManager_init example_portfolio (5 / 100)"

definition example_position :: Position where
  "example_position =
     \<lparr>p_strategy_name = ''dip_buy'', p_ticker = ''KRW-BTC'', status = OPEN,
      entry_price = 50000000, p_quantity = 1999 / 1000000, highest_price = Some 50000000,
      exit_price = None, exit_time = None, p_profit = None, p_profit_pct = None\<rparr>"

definition holding_pm :: PortfolioManager where
  "holding_pm =
     \<lparr>portfolio = \<lparr>krw_balance = 900000, positions = [(''KRW-BTC'', example_position)],
                   total_trades = 0, winning_trades = 0, total_profit = 0\<rparr>,
      fee_rate = 1 / 2000\<rparr>"

definition drained_pm :: PortfolioManager where
  "drained_pm =
     \<lparr>portfolio = \<lparr>krw_balance = 0,
                   positions = [(''KRW-BTC'', example_position\<lparr>p_quantity := 1999 / 100000\<rparr>)],
                   total_trades = 0, winning_trades = 0, total_profit = 0\<rparr>,
      fee_rate = 1 / 2000\<rparr>"

definition example_risk_config :: RiskConfig where
  "example_risk_config =
     \<lparr>stop_loss_pct = - 5, take_profit_pct = 10, trailing_stop_pct = 3,
      max_daily_loss_pct = - 3, max_drawdown_pct = - 15, max_positions = 5\<rparr>"

definition closed_position :: Position where
  "closed_position = example_position\<lparr>status := CLOSED\<rparr>"

definition high_position :: Position where
  "high_position = example_position\<lparr>highest_price := Some 60000000\<rparr>"

definition example_trading :: TradingConfig where
  "example_trading = \<lparr>initial_krw = 1000000, buy_amount = 100000\<rparr>"

definition example_risk :: RiskManager where
  "example_risk =
     \<lparr>config = example_risk_config,
      daily_pnl = \<lparr>date = 0, realized_pnl = 0, trades_today = 0\<rparr>\<rparr>"

definition example_engine :: ExecutionEngine where
  "example_engine =
     \<lparr>trading = example_trading, pm = example_pm, risk = example_risk, trade_log = []\<rparr>"

definition holding_engine :: ExecutionEngine where
  "holding_engine =
     \<lparr>trading = example_trading, pm = holding_pm, risk = example_risk, trade_log = []\<rparr>"

definition tick_at :: "string \<Rightarrow> rat \<Rightarrow> Tick" where
  "tick_at t pr =
     \<lparr>tick_ticker = Some t, tick_price = Some pr, tick_volume = None, tick_change_pct = None,
      tick_high_price = None, tick_low_price = None, tick_price_history = None\<rparr>"

text \<open>Two strategies for the examples: one that raises, one that always signals BUY.\<close>

definition faulty_strategy :: Strategy where
  "faulty_strategy t md = Inl (Fault ''boom'')"

definition always_buy :: Strategy where
  "always_buy t md =
     map_sum id Some (Signal_init ''mock_strategy'' t SignalType_BUY (4 / 5) (Text ''Test buy'') [])"

definition always_sell :: Strategy where
  "always_sell t md =
     map_sum id Some (Signal_init ''mock_strategy'' t SignalType_SELL (4 / 5) (Text ''Test sell'') [])"



definition big_trading :: TradingConfig where
  "big_trading = \<lparr>initial_krw = 2000000, buy_amount = 100000\<rparr>"

definition big_portfolio :: Portfolio where
  "big_portfolio = example_portfolio\<lparr>krw_balance := 2000000\<rparr>"

definition losing_risk :: RiskManager where
  "losing_risk =
     \<lparr>config = example_risk_config,
      daily_pnl = \<lparr>date = 0, realized_pnl = - 40000, trades_today = 1\<rparr>\<rparr>"

definition buy_signal :: Signal where
  "buy_signal =
     \<lparr>s_strategy_name = ''dip_buy'', s_ticker = ''KRW-BTC'', signal_type = SignalType_BUY,
      strength = 4 / 5, s_reason = Text ''Dip'', params = []\<rparr>"

definition sell_signal :: Signal where
  "sell_signal =
     \<lparr>s_strategy_name = ''dip_buy'', s_ticker = ''KRW-BTC'', signal_type = SignalType_SELL,
      strength = 9 / 10, s_reason = Text ''Recovery'', params = []\<rparr>"



text \<open>
  A run of the engine over a sequence of ticks, each with the clock reading at its call:
  the loop of a caller of \<open>process_tick\<close>. It ends at the first exception, as the
  callers in the repository do not catch any. For each tick it keeps what the call
  returned, whether a risk exit produced it, and the risk manager before and after.
\<close>

definition exit_fired :: "nat \<Rightarrow> ExecutionEngine \<Rightarrow> Tick \<Rightarrow> bool" where
  "exit_fired now eng tick =
     (let t = get_or (tick_ticker tick) '''';
          pr = get_or (tick_price tick) 0
      in t \<noteq> '''' \<and> pr \<noteq> 0 \<and>
         (case snd (check_risk_exits (eng\<lparr>pm := update_highest_price (pm eng) t pr\<rparr>) now t pr) of
            Inr (Some exit_trade) \<Rightarrow> True
          | _ \<Rightarrow> False))"

record TickOutcome =
  at_time :: nat
  by_exit :: bool
  returned :: "Trade list"
  risk_before :: RiskManager
  risk_after :: RiskManager

fun process_ticks ::
  "Strategy list \<Rightarrow> ExecutionEngine \<Rightarrow> (nat \<times> Tick) list
     \<Rightarrow> error + (ExecutionEngine \<times> TickOutcome list)" where
  "process_ticks strategies eng [] = Inr (eng, [])"
| "process_ticks strategies eng ((now, tick) # rest) =
     (case process_tick strategies now eng tick of
        (eng', Inl e) \<Rightarrow> Inl e
      | (eng', Inr trades) \<Rightarrow>
          (case process_ticks strategies eng' rest of
             Inl e \<Rightarrow> Inl e
           | Inr (eng'', outcomes) \<Rightarrow>
               Inr (eng'',
                    \<lparr>at_time = now, by_exit = exit_fired now eng tick, returned = trades,
                     risk_before = risk eng, risk_after = risk eng'\<rparr> # outcomes)))"

text \<open>
  The trades the claim expects in the log: every BUY trade, and every SELL trade with a
  profit other than zero. The trades of a tick that are expected in the log are the
  logged ones among the returned, unless a risk exit produced them.
\<close>

definition logged :: "Trade \<Rightarrow> bool" where
  "logged tr =
     (case side tr of
        Side_BUY \<Rightarrow> True
      | Side_SELL \<Rightarrow> profit tr \<noteq> None \<and> profit tr \<noteq> Some 0)"

definition logged_trades :: "TickOutcome \<Rightarrow> Trade list" where
  "logged_trades out = (if by_exit out then [] else filter logged (returned out))"

text \<open>
  What the daily aggregate owes to a tick: nothing after a risk exit, and otherwise one
  \<open>record_trade_pnl\<close> per logged trade, with its profit (zero for a BUY). The aggregate
  is compared after the lazy reset at the time of the tick, which \<open>check_buy\<close> may or
  may not have performed.
\<close>

definition record_logged :: "nat \<Rightarrow> Trade list \<Rightarrow> RiskManager \<Rightarrow> RiskManager" where
  "record_logged now trades rm =
     fold (\<lambda>tr rm'. record_trade_pnl rm' now (get_or (profit tr) 0)) trades rm"

definition pnl_recorded :: "TickOutcome \<Rightarrow> bool" where
  "pnl_recorded out =
     (if by_exit out then risk_after out = risk_before out
      else reset_daily_if_needed (risk_after out) (at_time out) =
             record_logged (at_time out) (logged_trades out)
               (reset_daily_if_needed (risk_before out) (at_time out)))"

text \<open>An account without fees that holds the example position, for a sale at no profit.\<close>

definition zero_fee_engine :: ExecutionEngine where
  "zero_fee_engine = holding_engine\<lparr>pm := holding_pm\<lparr>fee_rate := 0\<rparr>\<rparr>"

text \<open>An optional result as the list of trades it adds.\<close>

definition as_list :: "'a option \<Rightarrow> 'a list" where
  "as_list x = (case x of None \<Rightarrow> [] | Some v \<Rightarrow> [v])"

section \<open>Verified properties\<close>

subsection \<open>Unfolding the model and the examples\<close>

lemmas model_defs =
  process_tick_def check_risk_exits_def sell_for_exit_def execute_signal_def
  build_market_data_def get_open_positions_def update_highest_price_def
  execute_buy_def execute_sell_def check_buy_def check_sell_def check_stop_loss_def
  check_take_profit_def check_trailing_stop_def highest_or_entry_def record_trade_pnl_def
  reset_daily_if_needed_def utc_date_def open_count_def decimal_div_def float_div_def
  Position_init_def Signal_init_def PortfolioManager_init_def get_or_def profit_truthy_def
  Let_def

lemmas example_defs =
  example_portfolio_def example_pm_def example_position_def holding_pm_def drained_pm_def
  example_risk_config_def closed_position_def high_position_def example_trading_def
  example_risk_def example_engine_def holding_engine_def tick_at_def faulty_strategy_def
  always_buy_def always_sell_def big_trading_def big_portfolio_def losing_risk_def
  buy_signal_def sell_signal_def

subsection \<open>Portfolio manager\<close>





text \<open>
  C3. As stated the claim fails: the manager does not check the sign of the price, and a
  sale at a negative price takes a balance of 0 below 0. The state is the one
  \<open>execute_buy\<close> reaches from the example account by spending the whole balance.
\<close>

theorem balance_nonneg_counterexample:
  "execute_buy example_pm ''dip_buy'' ''KRW-BTC'' 50000000 1000000 (Text '''') =
     Inr (Some \<lparr>strategy_name = ''dip_buy'', ticker = ''KRW-BTC'', side = Side_BUY,
                 price = 50000000, quantity = 1999 / 100000, total_krw = 1000000,
                 fee = 500, reason = Text '''', profit = None, profit_pct = None\<rparr>,
          drained_pm) \<and>
   0 \<le> krw_balance (portfolio drained_pm) \<and>
   (case execute_sell drained_pm 0 ''dip_buy'' ''KRW-BTC'' (- 1) (Text '''') of
      Inl e \<Rightarrow> False
    | Inr (r, mgr') \<Rightarrow> krw_balance (portfolio mgr') < 0)"
  by (simp add: execute_buy_def execute_sell_def decimal_div_def Position_init_def Let_def
      example_pm_def example_portfolio_def PortfolioManager_init_def drained_pm_def
      example_position_def)

text \<open>
  C3, amended. From a non-negative balance: \<open>execute_buy\<close> and
  \<open>update_highest_price\<close> always leave the balance non-negative, and a buy that the
  balance does not cover returns None and leaves the whole manager unchanged;
  \<open>execute_sell\<close> leaves the balance non-negative when the price and the position's
  quantity are non-negative and the fee rate is at most 100%.
\<close>

theorem balance_nonneg_preserved:
  assumes "0 \<le> krw_balance (portfolio mgr)"
  shows "(\<forall>r mgr'. execute_buy mgr sn t pr krw_amount rsn = Inr (r, mgr') \<longrightarrow>
            0 \<le> krw_balance (portfolio mgr'))
       \<and> (krw_balance (portfolio mgr) < krw_amount \<longrightarrow>
            execute_buy mgr sn t pr krw_amount rsn = Inr (None, mgr))
       \<and> krw_balance (portfolio (update_highest_price mgr t pr)) = krw_balance (portfolio mgr)
       \<and> (\<forall>r mgr'. 0 \<le> pr \<and> fee_rate mgr \<le> 1 \<and>
              (\<forall>pos. map_of (positions (portfolio mgr)) t = Some pos \<longrightarrow> 0 \<le> p_quantity pos) \<and>
              execute_sell mgr now sn t pr rsn = Inr (r, mgr') \<longrightarrow>
            0 \<le> krw_balance (portfolio mgr'))"
proof (intro conjI allI impI)
  fix r mgr'
  assume "execute_buy mgr sn t pr krw_amount rsn = Inr (r, mgr')"
  with assms show "0 \<le> krw_balance (portfolio mgr')"
    by (auto simp: execute_buy_def Let_def split: if_splits sum.splits)
next
  assume "krw_balance (portfolio mgr) < krw_amount"
  then show "execute_buy mgr sn t pr krw_amount rsn = Inr (None, mgr)"
    by (simp add: execute_buy_def)
next
  show "krw_balance (portfolio (update_highest_price mgr t pr)) = krw_balance (portfolio mgr)"
    by (simp add: update_highest_price_def split: option.splits)
next
  fix r mgr'
  assume h: "0 \<le> pr \<and> fee_rate mgr \<le> 1 \<and>
              (\<forall>pos. map_of (positions (portfolio mgr)) t = Some pos \<longrightarrow> 0 \<le> p_quantity pos) \<and>
              execute_sell mgr now sn t pr rsn = Inr (r, mgr')"
  show "0 \<le> krw_balance (portfolio mgr')"
  proof (cases "map_of (positions (portfolio mgr)) t")
    case None
    with h assms show ?thesis by (simp add: execute_sell_def)
  next
    case (Some pos)
    with h have q: "0 \<le> p_quantity pos" by simp
    have net: "0 \<le> p_quantity pos * pr - p_quantity pos * pr * fee_rate mgr"
    proof -
      have "0 \<le> (p_quantity pos * pr) * (1 - fee_rate mgr)"
        using q h by (intro mult_nonneg_nonneg) simp_all
      then show ?thesis by (simp add: algebra_simps)
    qed
    from h Some assms net show ?thesis
      by (auto simp: execute_sell_def Let_def split: if_splits sum.splits)
  qed
qed

theorem balance_nonneg_preserved_witness:
  "0 \<le> krw_balance (portfolio holding_pm) \<and>
   (case execute_buy holding_pm ''dip_buy'' ''KRW-ETH'' 4000000 100000 (Text '''') of
      Inl e \<Rightarrow> False | Inr (r, mgr') \<Rightarrow> r \<noteq> None \<and> krw_balance (portfolio mgr') = 800000) \<and>
   execute_buy holding_pm ''dip_buy'' ''KRW-ETH'' 4000000 1000000 (Text '''') =
     Inr (None, holding_pm) \<and>
   krw_balance (portfolio (update_highest_price holding_pm ''KRW-BTC'' 55000000)) = 900000 \<and>
   (case execute_sell holding_pm 0 ''dip_buy'' ''KRW-BTC'' 55000000 (Text '''') of
      Inl e \<Rightarrow> False | Inr (r, mgr') \<Rightarrow> r \<noteq> None \<and> 0 \<le> krw_balance (portfolio mgr'))"
  using balance_nonneg_preserved [of holding_pm "''dip_buy''" "''KRW-ETH''" 4000000 100000
      "Text ''''" 0]
  by (simp add: execute_buy_def execute_sell_def update_highest_price_def decimal_div_def
      Position_init_def Let_def holding_pm_def example_position_def)

subsection \<open>Risk manager\<close>





subsection \<open>Execution engine\<close>

text \<open>
  C4. The code at a tick that triggers the stop-loss (entry 50,000,000, price
  47,000,000): \<open>process_tick\<close> returns the one SELL trade, with its loss, and the daily
  aggregate of the risk manager is untouched. The second conjunct is the sibling path:
  the same sale through a SELL signal records the loss.
\<close>

theorem risk_exit_pnl_not_recorded:
  "(case process_tick [] 0 holding_engine (tick_at ''KRW-BTC'' 47000000) of
      (eng', Inr [tr]) \<Rightarrow>
         reason tr = Stop_loss_triggered (- 6) (- 5) \<and>
         profit tr = Some (- (12187953 / 2000)) \<and>
         daily_pnl (risk eng') = \<lparr>date = 0, realized_pnl = 0, trades_today = 0\<rparr>
    | _ \<Rightarrow> False) \<and>
   (case execute_signal holding_engine 0 sell_signal 47000000 of
      (eng', Inr (Some tr)) \<Rightarrow>
         profit tr = Some (- (12187953 / 2000)) \<and>
         daily_pnl (risk eng') =
           \<lparr>date = 0, realized_pnl = - (12187953 / 2000), trades_today = 1\<rparr>
    | _ \<Rightarrow> False)"
  by (simp add: model_defs example_defs)

text \<open>
  C6. As stated the claim fails: the guard of \<open>process_tick\<close> tests the price for
  being missing or zero only. A tick with the price -1 on a held ticker triggers the
  stop-loss: a SELL trade is returned, the position is closed and the balance falls.
\<close>

theorem negative_price_counterexample:
  "tick_price (tick_at ''KRW-BTC'' (- 1)) = Some (- 1) \<and>
   (case process_tick [] 0 holding_engine (tick_at ''KRW-BTC'' (- 1)) of
      (eng', Inr [tr]) \<Rightarrow>
         side tr = Side_SELL \<and> price tr = - 1 \<and>
         krw_balance (portfolio (pm eng')) < krw_balance (portfolio (pm holding_engine)) \<and>
         map_option status (map_of (positions (portfolio (pm eng'))) ''KRW-BTC'') = Some CLOSED
    | _ \<Rightarrow> False)"
  by (simp add: model_defs example_defs)

text \<open>
  C6, amended. For a tick whose ticker is missing or empty, or whose price is missing or
  zero, \<open>process_tick\<close> returns the empty list and the engine is unchanged.
\<close>

theorem process_tick_rejects_missing:
  assumes "tick_ticker tick = None \<or> tick_ticker tick = Some '''' \<or>
           tick_price tick = None \<or> tick_price tick = Some 0"
  shows "process_tick strategies now eng tick = (eng, Inr [])"
  using assms by (auto simp: process_tick_def get_or_def Let_def split: option.splits)

theorem process_tick_rejects_missing_witness:
  "tick_price (tick_at ''KRW-BTC'' 0) = Some 0 \<and>
   process_tick [always_buy] 0 holding_engine (tick_at ''KRW-BTC'' 0) = (holding_engine, Inr [])"
  using process_tick_rejects_missing [of "tick_at ''KRW-BTC'' 0" "[always_buy]" 0 holding_engine]
  by (simp add: tick_at_def)

text \<open>
  C7. As stated the claim fails: \<open>process_tick\<close> has no handler around
  \<open>evaluate\<close>. With a raising strategy registered before one that buys, the tick ends
  in the exception, the second strategy is not evaluated and the engine is unchanged;
  without the raising strategy the same tick buys.
\<close>

theorem strategy_fault_counterexample:
  "snd (process_tick [faulty_strategy, always_buy] 0 example_engine (tick_at ''KRW-BTC'' 50000000))
     = Inl (Fault ''boom'') \<and>
   fst (process_tick [faulty_strategy, always_buy] 0 example_engine (tick_at ''KRW-BTC'' 50000000))
     = example_engine \<and>
   (case process_tick [always_buy] 0 example_engine (tick_at ''KRW-BTC'' 50000000) of
      (eng', Inr [tr]) \<Rightarrow> side tr = Side_BUY \<and> eng' \<noteq> example_engine
    | _ \<Rightarrow> False)"
  by (simp add: model_defs example_defs)

lemma evaluate_strategies_append:
  "evaluate_strategies (pre @ rest) now t tick pr eng trades =
     (case evaluate_strategies pre now t tick pr eng trades of
        (eng', Inl e) \<Rightarrow> (eng', Inl e)
      | (eng', Inr trades') \<Rightarrow> evaluate_strategies rest now t tick pr eng' trades')"
proof (induction pre arbitrary: eng trades)
  case Nil
  show ?case by simp
next
  case (Cons s pre)
  show ?case
    by (simp add: Cons.IH split: sum.splits option.splits prod.splits)
qed

text \<open>
  C7, amended. When the tick passes the guard, no risk exit fires, the strategies
  registered before \<open>s\<close> are evaluated without an exception and \<open>s\<close> raises \<open>e\<close>, then
  \<open>process_tick\<close> ends in \<open>e\<close>: the strategies after \<open>s\<close> are not evaluated, no trade
  list is returned, and the engine is the one the earlier strategies left.
\<close>

theorem strategy_fault_propagates:
  assumes "tick_ticker tick = Some t" and "t \<noteq> ''''"
    and "tick_price tick = Some pr" and "pr \<noteq> 0"
    and "check_risk_exits (eng\<lparr>pm := update_highest_price (pm eng) t pr\<rparr>) now t pr
           = (eng2, Inr None)"
    and "evaluate_strategies pre now t tick pr eng2 [] = (eng3, Inr trades)"
    and "s t (build_market_data eng3 t tick) = Inl e"
  shows "process_tick (pre @ s # post) now eng tick = (eng3, Inl e)"
  using assms
  by (simp add: process_tick_def get_or_def Let_def evaluate_strategies_append)

theorem strategy_fault_propagates_witness:
  "tick_ticker (tick_at ''KRW-BTC'' 50000000) = Some ''KRW-BTC'' \<and>
   tick_price (tick_at ''KRW-BTC'' 50000000) = Some 50000000 \<and>
   check_risk_exits
     (example_engine\<lparr>pm := update_highest_price (pm example_engine) ''KRW-BTC'' 50000000\<rparr>)
     0 ''KRW-BTC'' 50000000 = (example_engine, Inr None) \<and>
   evaluate_strategies [] 0 ''KRW-BTC'' (tick_at ''KRW-BTC'' 50000000) 50000000 example_engine []
     = (example_engine, Inr []) \<and>
   faulty_strategy ''KRW-BTC''
     (build_market_data example_engine ''KRW-BTC'' (tick_at ''KRW-BTC'' 50000000))
     = Inl (Fault ''boom'') \<and>
   process_tick ([] @ faulty_strategy # [always_buy]) 0 example_engine
     (tick_at ''KRW-BTC'' 50000000)
   = (example_engine, Inl (Fault ''boom''))"
  using strategy_fault_propagates [of "tick_at ''KRW-BTC'' 50000000" "''KRW-BTC''" 50000000
      example_engine 0 example_engine "[]" example_engine "[]" faulty_strategy
      "Fault ''boom''" "[always_buy]"]
  by (simp add: model_defs example_defs)

subsection \<open>Dip-buy strategy\<close>






subsection \<open>The trade log\<close>

lemma reset_idem [simp]:
  "reset_daily_if_needed (reset_daily_if_needed rm now) now = reset_daily_if_needed rm now"
  by (simp add: reset_daily_if_needed_def Let_def)

lemma record_after_reset [simp]:
  "record_trade_pnl (reset_daily_if_needed rm now) now p = record_trade_pnl rm now p"
  by (simp add: record_trade_pnl_def Let_def)

lemma reset_after_record [simp]:
  "reset_daily_if_needed (record_trade_pnl rm now p) now = record_trade_pnl rm now p"
  by (simp add: record_trade_pnl_def reset_daily_if_needed_def Let_def)

lemma check_buy_snd: "snd (check_buy rm now signal pf amount) = reset_daily_if_needed rm now"
  by (simp add: check_buy_def Let_def)

lemma execute_buy_trade:
  "execute_buy m sn t pr amount rsn = Inr (Some tr, m') \<Longrightarrow> side tr = Side_BUY \<and> profit tr = None"
  by (auto simp: execute_buy_def Let_def split: if_splits sum.splits)

lemma execute_sell_trade:
  "execute_sell m now sn t pr rsn = Inr (Some tr, m') \<Longrightarrow> side tr = Side_SELL \<and> profit tr \<noteq> None"
  by (auto simp: execute_sell_def Let_def split: if_splits sum.splits option.splits)

lemma execute_signal_log:
  assumes "execute_signal eng now signal pr = (eng', Inr r)"
  shows "trade_log eng' = trade_log eng @ filter logged (as_list r) \<and>
         reset_daily_if_needed (risk eng') now =
           record_logged now (filter logged (as_list r)) (reset_daily_if_needed (risk eng) now)"
proof (cases "signal_type signal")
  case SignalType_BUY
  obtain rc rm where cb: "check_buy (risk eng) now signal (portfolio (pm eng))
                            (of_int (buy_amount (trading eng))) = (rc, rm)"
    by (cases "check_buy (risk eng) now signal (portfolio (pm eng))
                (of_int (buy_amount (trading eng)))")
  have rm: "rm = reset_daily_if_needed (risk eng) now"
    using check_buy_snd [of "risk eng" now signal "portfolio (pm eng)"
        "of_int (buy_amount (trading eng))"] cb by simp
  show ?thesis
  proof (cases "allowed rc")
    case False
    with assms SignalType_BUY cb rm show ?thesis
      by (auto simp: execute_signal_def Let_def as_list_def record_logged_def)
  next
    case True
    show ?thesis
    proof (cases "execute_buy (pm eng) (s_strategy_name signal) (s_ticker signal) pr
                    (of_int (buy_amount (trading eng))) (s_reason signal)")
      case (Inl e)
      with assms SignalType_BUY cb True show ?thesis
        by (auto simp: execute_signal_def Let_def)
    next
      case (Inr res)
      obtain tro m' where res: "res = (tro, m')" by (cases res)
      show ?thesis
      proof (cases tro)
        case None
        with assms SignalType_BUY cb True Inr res rm show ?thesis
          by (auto simp: execute_signal_def Let_def as_list_def record_logged_def)
      next
        case (Some tr)
        with Inr res have "side tr = Side_BUY \<and> profit tr = None"
          using execute_buy_trade by blast
        with assms SignalType_BUY cb True Inr res rm Some show ?thesis
          by (auto simp: execute_signal_def Let_def as_list_def record_logged_def logged_def
              get_or_def)
      qed
    qed
  qed
next
  case SignalType_SELL
  show ?thesis
  proof (cases "allowed (check_sell signal (portfolio (pm eng)))")
    case False
    with assms SignalType_SELL show ?thesis
      by (auto simp: execute_signal_def Let_def as_list_def record_logged_def)
  next
    case True
    show ?thesis
    proof (cases "execute_sell (pm eng) now (s_strategy_name signal) (s_ticker signal) pr
                    (s_reason signal)")
      case (Inl e)
      with assms SignalType_SELL True show ?thesis
        by (auto simp: execute_signal_def Let_def)
    next
      case (Inr res)
      obtain tro m' where res: "res = (tro, m')" by (cases res)
      show ?thesis
      proof (cases tro)
        case None
        with assms SignalType_SELL True Inr res show ?thesis
          by (auto simp: execute_signal_def Let_def as_list_def record_logged_def)
      next
        case (Some tr)
        with Inr res have "side tr = Side_SELL \<and> profit tr \<noteq> None"
          using execute_sell_trade by blast
        with assms SignalType_SELL True Inr res Some show ?thesis
          by (auto simp: execute_signal_def Let_def as_list_def record_logged_def logged_def
              get_or_def profit_truthy_def split: if_splits)
      qed
    qed
  qed
qed

lemma record_logged_append:
  "record_logged now (xs @ ys) rm = record_logged now ys (record_logged now xs rm)"
  by (simp add: record_logged_def)

lemma evaluate_strategies_log:
  assumes "evaluate_strategies ss now t tick pr eng trades = (eng', Inr trades')"
  shows "\<exists>new. trades' = trades @ new \<and>
           trade_log eng' = trade_log eng @ filter logged new \<and>
           reset_daily_if_needed (risk eng') now =
             record_logged now (filter logged new) (reset_daily_if_needed (risk eng) now)"
  using assms
proof (induction ss arbitrary: eng trades)
  case Nil
  then show ?case by (simp add: record_logged_def)
next
  case (Cons s ss)
  show ?case
  proof (cases "s t (build_market_data eng t tick)")
    case (Inl e)
    with Cons.prems show ?thesis by simp
  next
    case (Inr sg)
    show ?thesis
    proof (cases sg)
      case None
      with Inr Cons.prems have "evaluate_strategies ss now t tick pr eng trades = (eng', Inr trades')"
        by simp
      from Cons.IH [OF this] show ?thesis .
    next
      case (Some signal)
      obtain eng1 r1 where es: "execute_signal eng now signal pr = (eng1, r1)"
        by (cases "execute_signal eng now signal pr")
      show ?thesis
      proof (cases r1)
        case (Inl e)
        with Inr Some es Cons.prems show ?thesis by simp
      next
        case (Inr r)
        from es Inr have step: "trade_log eng1 = trade_log eng @ filter logged (as_list r) \<and>
            reset_daily_if_needed (risk eng1) now =
              record_logged now (filter logged (as_list r)) (reset_daily_if_needed (risk eng) now)"
          using execute_signal_log by blast
        from \<open>s t (build_market_data eng t tick) = Inr sg\<close> Some es Inr Cons.prems
        have rest: "evaluate_strategies ss now t tick pr eng1 (trades @ as_list r) = (eng', Inr trades')"
          by (cases r) (simp_all add: as_list_def)
        from Cons.IH [OF rest] obtain new where
          new: "trades' = (trades @ as_list r) @ new"
            "trade_log eng' = trade_log eng1 @ filter logged new"
            "reset_daily_if_needed (risk eng') now =
               record_logged now (filter logged new) (reset_daily_if_needed (risk eng1) now)"
          by blast
        show ?thesis
        proof (intro exI conjI)
          show "trades' = trades @ (as_list r @ new)" using new(1) by simp
          show "trade_log eng' = trade_log eng @ filter logged (as_list r @ new)"
            using new(2) step by simp
          show "reset_daily_if_needed (risk eng') now =
                  record_logged now (filter logged (as_list r @ new))
                    (reset_daily_if_needed (risk eng) now)"
            using new(3) step by (simp add: record_logged_append)
        qed
      qed
    qed
  qed
qed


lemma sell_for_exit_frame:
  "sell_for_exit eng now position t pr rsn = (eng', r) \<Longrightarrow>
     trade_log eng' = trade_log eng \<and> risk eng' = risk eng"
  by (auto simp: sell_for_exit_def split: sum.splits prod.splits)

lemma check_risk_exits_frame:
  "check_risk_exits eng now t pr = (eng', r) \<Longrightarrow>
     trade_log eng' = trade_log eng \<and> risk eng' = risk eng"
  by (auto simp: check_risk_exits_def split: option.splits sum.splits if_splits
      dest: sell_for_exit_frame)

lemma process_tick_log:
  assumes "process_tick ss now eng tick = (eng', Inr trades)"
  shows "trade_log eng' =
           trade_log eng @
           logged_trades \<lparr>at_time = now, by_exit = exit_fired now eng tick, returned = trades,
                          risk_before = risk eng, risk_after = risk eng'\<rparr>
       \<and> pnl_recorded \<lparr>at_time = now, by_exit = exit_fired now eng tick, returned = trades,
                        risk_before = risk eng, risk_after = risk eng'\<rparr>"
proof (cases "get_or (tick_ticker tick) '''' = '''' \<or> get_or (tick_price tick) 0 = 0")
  case True
  with assms show ?thesis
    by (auto simp: process_tick_def exit_fired_def logged_trades_def pnl_recorded_def
        record_logged_def Let_def)
next
  case False
  define t where "t = get_or (tick_ticker tick) ''''"
  define pr where "pr = get_or (tick_price tick) 0"
  define eng1 where "eng1 = eng\<lparr>pm := update_highest_price (pm eng) t pr\<rparr>"
  obtain eng2 r where cre: "check_risk_exits eng1 now t pr = (eng2, r)"
    by (cases "check_risk_exits eng1 now t pr")
  from check_risk_exits_frame [OF cre]
  have frame: "trade_log eng2 = trade_log eng" "risk eng2 = risk eng"
    by (simp_all add: eng1_def)
  have fired: "exit_fired now eng tick = (case r of Inr (Some x) \<Rightarrow> True | _ \<Rightarrow> False)"
    using False cre
    by (simp add: exit_fired_def Let_def t_def pr_def eng1_def)
  have pt: "process_tick ss now eng tick =
              (case r of Inl e \<Rightarrow> (eng2, Inl e)
               | Inr (Some x) \<Rightarrow> (eng2, Inr [x])
               | Inr None \<Rightarrow> evaluate_strategies ss now t tick pr eng2 [])"
    using False cre
    by (simp add: process_tick_def Let_def t_def pr_def eng1_def
        split: sum.splits option.splits)
  show ?thesis
  proof (cases r)
    case (Inl e)
    with pt assms show ?thesis by simp
  next
    case (Inr ro)
    show ?thesis
    proof (cases ro)
      case (Some x)
      with Inr pt assms fired frame show ?thesis
        by (auto simp: logged_trades_def pnl_recorded_def)
    next
      case None
      with Inr pt assms have "evaluate_strategies ss now t tick pr eng2 [] = (eng', Inr trades)"
        by simp
      from evaluate_strategies_log [OF this] None Inr fired frame show ?thesis
        by (auto simp: logged_trades_def pnl_recorded_def)
    qed
  qed
qed

text \<open>
  C10. After any sequence of \<open>process_tick\<close> calls that return, the trade log is the
  log before the sequence followed, tick by tick, by the logged trades of the tick:
  none for a tick that ended in a risk exit, and otherwise the returned BUY trades and
  the returned SELL trades with a non-zero profit, in order. \<open>trade_log_count\<close> of
  \<open>get_summary\<close> is its length. The daily aggregate changes by one
  \<open>record_trade_pnl\<close> per logged trade and by nothing else: a risk exit leaves the risk
  manager as it was, and a SELL with profit zero is not recorded.
\<close>

theorem trade_log_contents:
  assumes "process_ticks ss eng ticks = Inr (eng', outcomes)"
  shows "trade_log eng' = trade_log eng @ concat (map logged_trades outcomes)
       \<and> trade_log_count (get_summary eng') =
           length (trade_log eng) + length (concat (map logged_trades outcomes))
       \<and> list_all pnl_recorded outcomes
       \<and> length outcomes = length ticks"
proof -
  have "trade_log eng' = trade_log eng @ concat (map logged_trades outcomes)
        \<and> list_all pnl_recorded outcomes \<and> length outcomes = length ticks"
    using assms
  proof (induction ticks arbitrary: eng outcomes)
    case Nil
    then show ?case by simp
  next
    case (Cons nt rest)
    obtain now tick where nt: "nt = (now, tick)" by (cases nt)
    obtain eng1 r1 where p1: "process_tick ss now eng tick = (eng1, r1)"
      by (cases "process_tick ss now eng tick")
    show ?case
    proof (cases r1)
      case (Inl e)
      with Cons.prems nt p1 show ?thesis by simp
    next
      case (Inr trades)
      show ?thesis
      proof (cases "process_ticks ss eng1 rest")
        case (Inl e)
        with Cons.prems nt p1 Inr show ?thesis by simp
      next
        case (Inr res)
        obtain eng2 outs where res: "res = (eng2, outs)" by (cases res)
        define out where "out = \<lparr>at_time = now, by_exit = exit_fired now eng tick,
            returned = trades, risk_before = risk eng, risk_after = risk eng1\<rparr>"
        from Cons.prems nt p1 \<open>r1 = Inr trades\<close> Inr res
        have eq: "eng' = eng2" "outcomes = out # outs"
          by (simp_all add: out_def)
        from Inr res eq have "process_ticks ss eng1 rest = Inr (eng', outs)" by simp
        from Cons.IH [OF this]
        have ih: "trade_log eng' = trade_log eng1 @ concat (map logged_trades outs)"
          "list_all pnl_recorded outs" "length outs = length rest" by simp_all
        from p1 \<open>r1 = Inr trades\<close> have "process_tick ss now eng tick = (eng1, Inr trades)"
          by simp
        from process_tick_log [OF this]
        have st: "trade_log eng1 = trade_log eng @ logged_trades out" "pnl_recorded out"
          by (simp_all add: out_def)
        from eq ih st show ?thesis by simp
      qed
    qed
  qed
  then show ?thesis by (simp add: get_summary_def)
qed

text \<open>
  A run of two ticks without fees: a SELL signal closes the held position at its entry
  price (profit zero: returned, not logged) and a BUY signal opens a new one (logged);
  the next tick stops the loss of the new position (returned, not logged, not recorded).
\<close>

theorem trade_log_contents_witness:
  "(case process_ticks [always_sell, always_buy] zero_fee_engine
          [(0, tick_at ''KRW-BTC'' 50000000), (1, tick_at ''KRW-BTC'' 47000000)] of
      Inl e \<Rightarrow> False
    | Inr (eng', outcomes) \<Rightarrow>
        map by_exit outcomes = [False, True] \<and>
        map (\<lambda>out. map (\<lambda>tr. (side tr, profit tr)) (returned out)) outcomes =
          [[(Side_SELL, Some 0), (Side_BUY, None)], [(Side_SELL, Some (- 6000))]] \<and>
        map (\<lambda>tr. (side tr, profit tr)) (trade_log eng') = [(Side_BUY, None)] \<and>
        daily_pnl (risk eng') = \<lparr>date = 0, realized_pnl = 0, trades_today = 1\<rparr> \<and>
        trade_log eng' = trade_log zero_fee_engine @ concat (map logged_trades outcomes) \<and>
        trade_log_count (get_summary eng') = 1 \<and>
        list_all pnl_recorded outcomes)"
proof -
  have "\<exists>eng' outcomes.
          process_ticks [always_sell, always_buy] zero_fee_engine
            [(0, tick_at ''KRW-BTC'' 50000000), (1, tick_at ''KRW-BTC'' 47000000)]
            = Inr (eng', outcomes) \<and>
          map by_exit outcomes = [False, True] \<and>
          map (\<lambda>out. map (\<lambda>tr. (side tr, profit tr)) (returned out)) outcomes =
            [[(Side_SELL, Some 0), (Side_BUY, None)], [(Side_SELL, Some (- 6000))]] \<and>
          map (\<lambda>tr. (side tr, profit tr)) (trade_log eng') = [(Side_BUY, None)] \<and>
          daily_pnl (risk eng') = \<lparr>date = 0, realized_pnl = 0, trades_today = 1\<rparr> \<and>
          trade_log zero_fee_engine = []"
    by (simp add: model_defs example_defs exit_fired_def zero_fee_engine_def)
  then show ?thesis
  proof (elim exE conjE)
    fix eng' outcomes
    assume run: "process_ticks [always_sell, always_buy] zero_fee_engine
            [(0, tick_at ''KRW-BTC'' 50000000), (1, tick_at ''KRW-BTC'' 47000000)]
            = Inr (eng', outcomes)"
      and f1: "map by_exit outcomes = [False, True]"
      and f2: "map (\<lambda>out. map (\<lambda>tr. (side tr, profit tr)) (returned out)) outcomes =
         [[(Side_SELL, Some 0), (Side_BUY, None)], [(Side_SELL, Some (- 6000))]]"
      and f3: "map (\<lambda>tr. (side tr, profit tr)) (trade_log eng') = [(Side_BUY, None)]"
      and f4: "daily_pnl (risk eng') = \<lparr>date = 0, realized_pnl = 0, trades_today = 1\<rparr>"
      and f5: "trade_log zero_fee_engine = []"
    from trade_log_contents [OF run]
    have cont: "trade_log eng' = trade_log zero_fee_engine @ concat (map logged_trades outcomes)"
      "list_all pnl_recorded outcomes" by simp_all
    from f3 have "length (map (\<lambda>tr. (side tr, profit tr)) (trade_log eng')) = 1" by simp
    then have "trade_log_count (get_summary eng') = 1"
      by (simp add: get_summary_def)
    with run f1 f2 f3 f4 cont show ?thesis by simp
  qed
qed

end
